theory Spec2Isabelle
  imports Main
begin

section \<open>The fixture corpus\<close>

text \<open>
  The repository holds two Python source files, \<^verbatim>\<open>test-fixtures/mypy-issues.py\<close> and
  \<^verbatim>\<open>test-fixtures/ruff-issues.py\<close>. They are data: each is embedded as the list of its
  lines, character for character, in file order (line \<open>n\<close> of a file is element \<open>n - 1\<close>
  of its list). Where a line ends in a single quote, that last character is appended as
  \<open>CHR 0x27\<close>, since a HOL string literal cannot end in one.
\<close>

definition mypy_issues :: "string list" where
  \<open>mypy_issues = [
    ''# Mypy test file - intentionally dirty code for type checking'',
    ''# This file triggers various Mypy type errors'',
    '''',
    ''from typing import List, Dict, Optional, Union, Callable'',
    '''',
    '''',
    ''# Return type mismatch'',
    ''def returns_wrong_type() -> str:'',
    ''    return 42  # error: Incompatible return value type (got "int", expected "str")'',
    '''',
    '''',
    ''# Argument type mismatch'',
    ''def expects_string(s: str) -> None:'',
    ''    print(s)'',
    '''',
    '''',
    ''def call_with_wrong_type():'',
    ''    expects_string(123)  # error: Argument 1 has incompatible type "int"; expected "str"'',
    '''',
    '''',
    ''# Missing return statement'',
    ''def missing_return() -> int:'',
    ''    x = 5'',
    ''    # error: Missing return statement'',
    '''',
    '''',
    ''# Incompatible types in assignment'',
    ''def incompatible_assignment():'',
    ''    x: str = "hello"'',
    ''    x = 42  # error: Incompatible types in assignment'',
    '''',
    '''',
    ''# None handling issues'',
    ''def none_issues(x: Optional[str]) -> str:'',
    ''    return x.upper()  # error: Item "None" of "Optional[str]" has no attribute "upper"'',
    '''',
    '''',
    ''# List type issues'',
    ''def list_type_issues():'',
    ''    items: List[int] = [1, 2, 3]'',
    ''    items.append("four")  # error: Argument 1 has incompatible type "str"; expected "int"'',
    '''',
    '''',
    ''# Dict type issues'',
    ''def dict_type_issues():'',
    ''    data: Dict[str, int] = {"a": 1}'',
    ''    data["b"] = "two"  # error: Incompatible types in assignment'',
    '''',
    '''',
    ''# Union type narrowing issues'',
    ''def union_issues(x: Union[int, str]) -> int:'',
    ''    return x + 1  # error: Unsupported operand types for + ("str" and "int")'',
    '''',
    '''',
    ''# Callable type issues'',
    ''def callable_issues():'',
    ''    func: Callable[[int], str] = lambda x: x * 2  # error: Incompatible return type'',
    '''',
    '''',
    ''# Attribute access on wrong type'',
    ''class MyClass:'',
    ''    def __init__(self):'',
    ''        self.value: int = 0'',
    '''',
    '''',
    ''def attribute_issues():'',
    ''    obj: MyClass = MyClass()'',
    ''    print(obj.nonexistent)  # error: "MyClass" has no attribute "nonexistent"'',
    '''',
    '''',
    ''# Incompatible override'',
    ''class Base:'',
    ''    def method(self, x: int) -> str:'',
    ''        return str(x)'',
    '''',
    '''',
    ''class Derived(Base):'',
    ''    def method(self, x: str) -> int:  # error: Argument 1 incompatible with supertype'',
    ''        return len(x)'',
    '''',
    '''',
    ''# Generic type issues'',
    ''def generic_issues():'',
    ''    from typing import TypeVar'',
    '''',
    ''    T = TypeVar('T')'',
    '''',
    ''    def identity(x: T) -> T:'',
    ''        return x'',
    '''',
    ''    result: str = identity(42)  # error: Incompatible types in assignment'',
    '''',
    '''',
    ''# Protocol violations'',
    ''from typing import Protocol'',
    '''',
    '''',
    ''class Drawable(Protocol):'',
    ''    def draw(self) -> None: ...'',
    '''',
    '''',
    ''class Circle:'',
    ''    pass  # Missing draw method'',
    '''',
    '''',
    ''def draw_shape(shape: Drawable) -> None:'',
    ''    shape.draw()'',
    '''',
    '''',
    ''def protocol_violation():'',
    ''    c = Circle()'',
    ''    draw_shape(c)  # error: Argument 1 has incompatible type "Circle"'',
    '''',
    '''',
    ''# Literal type issues'',
    ''from typing import Literal'',
    '''',
    '''',
    ''def literal_issues():'',
    ''    mode: Literal["read", "write"] = "execute"  # error: Incompatible types'',
    '''',
    '''',
    ''# TypedDict issues'',
    ''from typing import TypedDict'',
    '''',
    '''',
    ''class Person(TypedDict):'',
    ''    name: str'',
    ''    age: int'',
    '''',
    '''',
    ''def typeddict_issues():'',
    ''    person: Person = {"name": "Alice"}  # error: Missing key 'age'' @ [CHR 0x27],
    ''    person["height"] = 170  # error: TypedDict "Person" has no key 'height'' @ [CHR 0x27],
    '''',
    '''',
    ''# Overload issues'',
    ''from typing import overload'',
    '''',
    '''',
    ''@overload'',
    ''def process(x: int) -> int: ...'',
    ''@overload'',
    ''def process(x: str) -> str: ...'',
    '''',
    '''',
    ''def process(x):  # error: Missing type annotation'',
    ''    return x'',
    '''',
    '''',
    ''# Variance issues'',
    '''',
    '''',
    ''def variance_issues():'',
    ''    ints: List[int] = [1, 2, 3]'',
    ''    objects: List[object] = ints  # error: Incompatible types (invariance)'',
    ''''
  ]\<close>

definition ruff_issues :: "string list" where
  \<open>ruff_issues = [
    ''# Ruff test file - intentionally dirty code for linting'',
    ''# This file triggers various Ruff rules'',
    '''',
    ''from collections import *  # F403: Star import'',
    '''',
    ''# E501: Line too long (this comment is intentionally very very very very very very very very very very very very long)'',
    '''',
    ''def badly_formatted_function(x,y,z):  # E251: Missing whitespace around parameter equals'',
    ''    """Missing blank lines, bad spacing."""'',
    ''    a=1  # E225: Missing whitespace around operator'',
    ''    b =2  # E221: Multiple spaces before operator'',
    ''    c= 3  # E222: Missing space after operator'',
    ''    if x==1:  # E225: Missing whitespace around comparison'',
    ''        pass'',
    ''    return a+b+c  # E225: Missing whitespace around operator'',
    '''',
    '''',
    ''class badlyNamedClass:  # N801: Class name should use CapWords convention'',
    ''    def __init__(self):'',
    ''        self.BadAttribute = 1  # N815: Mixed case variable in class scope'',
    '''',
    ''    def BadMethodName(self):  # N802: Function name should be lowercase'',
    ''        pass'',
    '''',
    '''',
    ''def unused_variable_function():'',
    ''    unused_var = 42  # F841: Local variable is assigned but never used'',
    ''    x = 1'',
    ''    return x'',
    '''',
    '''',
    ''def unreachable_code():'',
    ''    return 1'',
    ''    print("never reached")  # F821 style: unreachable code after return'',
    '''',
    '''',
    ''# E302: Expected 2 blank lines, found 1'',
    ''def missing_blank_lines():'',
    ''    pass'',
    '''',
    ''CONSTANT = "value"'',
    ''constant_lowercase = "bad"  # N816: Variable in module scope should be UPPER_CASE'',
    '''',
    '''',
    ''# Comparison issues'',
    ''def comparison_issues(x):'',
    ''    if x == None:  # E711: Comparison to None should be 'is None'' @ [CHR 0x27],
    ''        pass'',
    ''    if x == True:  # E712: Comparison to True should be 'if x:' or 'if x is True:'' @ [CHR 0x27],
    ''        pass'',
    ''    if type(x) == int:  # E721: Use isinstance() instead of type comparison'',
    ''        pass'',
    '''',
    '''',
    ''# f-string issues'',
    ''def fstring_issues():'',
    ''    name = "world"'',
    ''    greeting = "hello"  # F541: f-string without placeholders'',
    ''    return greeting'',
    '''',
    '''',
    ''# Lambda assignment'',
    ''square = lambda x: x * x  # E731: Do not assign a lambda expression, use a def'',
    '''',
    '''',
    ''# Bare except'',
    ''def bare_except_handler():'',
    ''    try:'',
    ''        pass'',
    ''    except Exception:'',
    ''        pass'',
    '''',
    '''',
    ''# Mutable default argument'',
    ''def mutable_default(items=[]):  # B006: Do not use mutable data structures for argument defaults'',
    ''    items.append(1)'',
    ''    return items'',
    '''',
    '''',
    ''# Assert with tuple'',
    ''def assert_tuple():'',
    ''    assert (1, 2)  # B011: Do not use assert with a tuple, it's always True'',
    '''',
    '''',
    ''# Duplicate keys in dict'',
    ''duplicate_dict = {'',
    ''    "key": 1,'',
    ''    "key": 2,  # Duplicate key'',
    ''}''
  ]\<close>


text \<open>
  The corpus as the repository lays it out: each fixture file under its path.
\<close>

definition corpus :: "(string \<times> string list) list" where
  "corpus =
    [(''test-fixtures/mypy-issues.py'', mypy_issues),
     (''test-fixtures/ruff-issues.py'', ruff_issues)]"

section \<open>Reading a fixture line\<close>

text \<open>
  A Python line is code followed by an optional comment. The comment starts at the first
  \<open>#\<close> that is not inside a string literal; a string literal runs from a quote character
  (\<open>CHR 0x22\<close> or \<open>CHR 0x27\<close>) to the next occurrence of the same character.
  \<open>split_comment_aux q acc cs\<close> scans \<open>cs\<close> with \<open>q\<close> the quote that is open, if one is,
  and \<open>acc\<close> the code seen so far, reversed.
\<close>

fun split_comment_aux :: "char option \<Rightarrow> string \<Rightarrow> string \<Rightarrow> string \<times> string option" where
  "split_comment_aux q acc [] = (rev acc, None)"
| "split_comment_aux None acc (c # cs) =
    (if c = CHR ''#'' then (rev acc, Some cs)
     else if c = CHR 0x22 \<or> c = CHR 0x27 then split_comment_aux (Some c) (c # acc) cs
     else split_comment_aux None (c # acc) cs)"
| "split_comment_aux (Some q) acc (c # cs) =
    (if c = q then split_comment_aux None (c # acc) cs
     else split_comment_aux (Some q) (c # acc) cs)"

definition split_comment :: "string \<Rightarrow> string \<times> string option" where
  "split_comment l = split_comment_aux None [] l"

definition is_space :: "char \<Rightarrow> bool" where
  "is_space c = (c = CHR '' '')"

definition strip :: "string \<Rightarrow> string" where
  "strip s = rev (dropWhile is_space (rev (dropWhile is_space s)))"

definition indent :: "string \<Rightarrow> nat" where
  "indent s = length (takeWhile is_space s)"

definition blank :: "string \<Rightarrow> bool" where
  "blank s = (strip s = [])"

text \<open>The code of a line and its comment, both without the surrounding spaces.\<close>

definition code_of :: "string \<Rightarrow> string" where
  "code_of l = strip (fst (split_comment l))"

definition comment_of :: "string \<Rightarrow> string option" where
  "comment_of l = map_option strip (snd (split_comment l))"

text \<open>
  An inline comment is a comment on a line that also holds code. \<open>annotation l\<close> is the
  pair of the code and the inline comment of \<open>l\<close>, when \<open>l\<close> has both.
\<close>

definition annotation :: "string \<Rightarrow> (string \<times> string) option" where
  "annotation l =
    (case comment_of l of
       None \<Rightarrow> None
     | Some c \<Rightarrow> if code_of l = [] then None else Some (code_of l, c))"

text \<open>
  A comment of the linter fixture names a rule code, then \<open>: \<close>, then the message;
  one of the type checker fixture reads \<open>error: \<close> and the message. \<open>split_kind c\<close>
  cuts \<open>c\<close> at the first \<open>: \<close> into the kind and the message fragment.
\<close>

fun split_kind_aux :: "string \<Rightarrow> string \<Rightarrow> (string \<times> string) option" where
  "split_kind_aux acc [] = None"
| "split_kind_aux acc [c] = None"
| "split_kind_aux acc (c # d # cs) =
    (if c = CHR '':'' \<and> d = CHR '' '' then Some (rev acc, cs)
     else split_kind_aux (c # acc) (d # cs))"

definition split_kind :: "string \<Rightarrow> (string \<times> string) option" where
  "split_kind c = split_kind_aux [] c"

definition kind_of :: "string \<Rightarrow> string option" where
  "kind_of l = (case comment_of l of None \<Rightarrow> None | Some c \<Rightarrow> map_option fst (split_kind c))"

text \<open>
  The block a line belongs to: \<open>enclosing ls n\<close> is the code of the nearest line above
  line \<open>n\<close> (counted from 1) that is not blank and is indented less than line \<open>n\<close>, which is
  the \<open>def\<close>, \<open>class\<close> or compound statement whose suite holds line \<open>n\<close>.
\<close>

definition enclosing :: "string list \<Rightarrow> nat \<Rightarrow> string option" where
  "enclosing ls n =
    (if n = 0 \<or> length ls < n then None
     else map_option code_of
       (find (\<lambda>h. \<not> blank h \<and> indent h < indent (ls ! (n - 1))) (rev (take (n - 1) ls))))"

text \<open>
  The suite of a compound statement: \<open>suite ls n\<close> is the code of the lines that follow
  line \<open>n\<close> and are indented deeper than it, up to the first line that is not, blank
  lines left out.
\<close>

definition suite :: "string list \<Rightarrow> nat \<Rightarrow> string list" where
  "suite ls n =
    (if n = 0 \<or> length ls < n then []
     else map code_of (filter (\<lambda>l. \<not> blank l)
       (takeWhile (\<lambda>l. blank l \<or> indent (ls ! (n - 1)) < indent l) (drop n ls))))"

text \<open>\<open>starts_with p s\<close>: \<open>p\<close> is a prefix of \<open>s\<close>; \<open>contains p s\<close>: \<open>p\<close> occurs in \<open>s\<close>.\<close>

fun starts_with :: "string \<Rightarrow> string \<Rightarrow> bool" where
  "starts_with [] s = True"
| "starts_with (p # ps) [] = False"
| "starts_with (p # ps) (c # cs) = (p = c \<and> starts_with ps cs)"

fun contains :: "string \<Rightarrow> string \<Rightarrow> bool" where
  "contains p [] = (p = [])"
| "contains p (c # cs) = (starts_with p (c # cs) \<or> contains p cs)"

text \<open>
  The lines of a file that carry a given kind, by line number: \<open>lines_of_kind k ls\<close>.
\<close>

definition lines_of_kind :: "string \<Rightarrow> string list \<Rightarrow> nat list" where
  "lines_of_kind k ls = map (\<lambda>p. Suc (fst p)) (filter (\<lambda>p. kind_of (snd p) = Some k) (enumerate 0 ls))"

text \<open>
  The key of a dictionary entry: for a line whose code is a string literal in double
  quotes followed by a colon, \<open>entry_key\<close> is the text of that literal.
\<close>

definition entry_key :: "string \<Rightarrow> string option" where
  "entry_key l =
    (case code_of l of
       [] \<Rightarrow> None
     | c # cs \<Rightarrow>
         if c = CHR 0x22 \<and> starts_with [CHR 0x22, CHR '':''] (dropWhile (\<lambda>d. d \<noteq> CHR 0x22) cs)
         then Some (takeWhile (\<lambda>d. d \<noteq> CHR 0x22) cs)
         else None)"

text \<open>
  A formatted string literal is a string literal whose prefix letters include \<open>f\<close> or
  \<open>F\<close>. \<open>has_fstring_aux q pre cs\<close> scans the code \<open>cs\<close>, with \<open>q\<close> the open quote and
  \<open>pre\<close> the prefix letters that stand directly before the current position.
\<close>

definition is_prefix_letter :: "char \<Rightarrow> bool" where
  "is_prefix_letter c = List.member ''rRbBuUfF'' c"

fun has_fstring_aux :: "char option \<Rightarrow> string \<Rightarrow> string \<Rightarrow> bool" where
  "has_fstring_aux q pre [] = False"
| "has_fstring_aux None pre (c # cs) =
    (if c = CHR 0x22 \<or> c = CHR 0x27
     then (List.member pre CHR ''f'' \<or> List.member pre CHR ''F'') \<or> has_fstring_aux (Some c) [] cs
     else if is_prefix_letter c then has_fstring_aux None (c # pre) cs
     else has_fstring_aux None [] cs)"
| "has_fstring_aux (Some q) pre (c # cs) =
    (if c = q then has_fstring_aux None [] cs else has_fstring_aux (Some q) pre cs)"

definition has_fstring :: "string \<Rightarrow> bool" where
  "has_fstring l = has_fstring_aux None [] (code_of l)"

section \<open>Sections of a fixture file\<close>

text \<open>
  A fixture file is a sequence of sections. A title is a comment that starts in the
  first column; the body of the section titled at line \<open>n\<close> is every line after it up to
  the next title. \<open>comments_in\<close> collects the comments of a body, those that share a line
  with code and those on a line of their own alike.
\<close>

definition is_title :: "string \<Rightarrow> bool" where
  "is_title l = starts_with ''#'' l"

definition titles :: "string list \<Rightarrow> nat list" where
  "titles ls = map (\<lambda>p. Suc (fst p)) (filter (\<lambda>p. is_title (snd p)) (enumerate 0 ls))"

definition section_body :: "string list \<Rightarrow> nat \<Rightarrow> string list" where
  "section_body ls n = takeWhile (\<lambda>l. \<not> is_title l) (drop n ls)"

definition comments_in :: "string list \<Rightarrow> string list" where
  "comments_in ls = List.map_filter comment_of ls"

section \<open>The tool a fixture is written for\<close>

text \<open>
  Each file says in its first line which kind of analysis it is for: the header of
  \<^verbatim>\<open>mypy-issues.py\<close> ends in "for type checking", that of \<^verbatim>\<open>ruff-issues.py\<close> in
  "for linting".
\<close>

datatype tool = TypeChecker | Linter

fun tool_name :: "tool \<Rightarrow> string" where
  "tool_name TypeChecker = ''type-checker''"
| "tool_name Linter = ''linter''"

definition tool_of :: "string list \<Rightarrow> tool option" where
  "tool_of ls =
    (case ls of
       [] \<Rightarrow> None
     | h # _ \<Rightarrow>
         if is_title h \<and> contains ''for type checking'' h then Some TypeChecker
         else if is_title h \<and> contains ''for linting'' h then Some Linter
         else None)"

definition fixture_of :: "string \<times> string list \<Rightarrow> string option \<times> string" where
  "fixture_of f = (map_option tool_name (tool_of (snd f)), fst f)"

section \<open>Input and output in the snippets\<close>




section \<open>Calls, stores and imports in the snippets\<close>














section \<open>The examples the specification names\<close>

text \<open>
  Claim C2. The corpus holds both snippets that the specification gives as examples.
  Line 9 of the type checker fixture is \<open>return 42\<close>; it is the whole body of the function
  of line 8, which is annotated \<open>-> str\<close>; and its inline comment records an incompatible
  return value type. Line 10 of the linter fixture is \<open>a=1\<close>, and its inline comment
  records rule E225, missing whitespace around operator.
\<close>

theorem return_42_and_a_eq_1_are_examples:
  \<open>annotation (mypy_issues ! 8) =
      Some (''return 42'',
            ''error: Incompatible return value type (got "int", expected "str")'')
   \<and> enclosing mypy_issues 9 = Some ''def returns_wrong_type() -> str:''
   \<and> suite mypy_issues 8 = [''return 42'']
   \<and> annotation (ruff_issues ! 9) =
      Some (''a=1'', ''E225: Missing whitespace around operator'')\<close>
  by code_simp

text \<open>
  Claim C3. Lines 86 to 89 of the linter fixture are a dictionary literal of two
  entries; both entries have the key \<open>key\<close>, and the inline comment of the second one
  records a duplicate key.
\<close>

theorem duplicate_key_is_an_example:
  \<open>take 4 (drop 85 ruff_issues) =
      [''duplicate_dict = {'', ''    "key": 1,'', ''    "key": 2,  # Duplicate key'', ''}'']
   \<and> length ruff_issues = 89
   \<and> entry_key (ruff_issues ! 86) = Some ''key''
   \<and> entry_key (ruff_issues ! 87) = Some ''key''
   \<and> annotation (ruff_issues ! 87) = Some (''"key": 2,'', ''Duplicate key'')\<close>
  by code_simp

text \<open>
  Claim C4. Line 75 of the linter fixture declares a function whose parameter \<open>items\<close>
  defaults to the empty list, with an inline comment recording rule B006 against
  mutable argument defaults. Line 47 compares \<open>x == None\<close> inside
  \<open>comparison_issues\<close>, with an inline comment recording rule E711, which recommends
  \<open>is None\<close>.
\<close>

theorem mutable_default_and_none_comparison_are_examples:
  \<open>annotation (ruff_issues ! 74) =
      Some (''def mutable_default(items=[]):'',
            ''B006: Do not use mutable data structures for argument defaults'')
   \<and> annotation (ruff_issues ! 46) =
      Some (''if x == None:'',
            ''E711: Comparison to None should be 'is None'' @ [CHR 0x27])
   \<and> enclosing ruff_issues 47 = Some ''def comparison_issues(x):''\<close>
  by code_simp

text \<open>
  Claim C10. Exactly one line of the linter fixture records rule F541, "f-string
  without placeholders": line 58, inside \<open>fstring_issues\<close>. Its code assigns the plain
  literal \<open>"hello"\<close>, which has no \<open>f\<close> prefix; no line of the function, and no line of
  the whole file, holds a formatted string literal.
\<close>

theorem f541_example_has_no_fstring:
  \<open>lines_of_kind ''F541'' ruff_issues = [58]
   \<and> annotation (ruff_issues ! 57) =
      Some (''greeting = "hello"'', ''F541: f-string without placeholders'')
   \<and> enclosing ruff_issues 58 = Some ''def fstring_issues():''
   \<and> suite ruff_issues 56 = [''name = "world"'', ''greeting = "hello"'', ''return greeting'']
   \<and> \<not> has_fstring (ruff_issues ! 57)
   \<and> filter has_fstring ruff_issues = []\<close>
  by code_simp

section \<open>The shape of the corpus\<close>

text \<open>
  Claim C8. The corpus maps two tools to one file each: the file at
  \<^verbatim>\<open>test-fixtures/mypy-issues.py\<close> declares itself the fixture of the type checker, the
  second file, \<^verbatim>\<open>test-fixtures/ruff-issues.py\<close>, that of the linter, and there is no third
  file.
\<close>

theorem corpus_maps_two_tools_to_one_file_each:
  "map fixture_of corpus =
    [(Some ''type-checker'', ''test-fixtures/mypy-issues.py''),
     (Some ''linter'', ''test-fixtures/ruff-issues.py'')]"
  by code_simp

text \<open>
  Claim C9. The two files together have 246 lines: 157 in the type checker fixture and
  89 in the linter fixture (whose last line, the closing brace, has no newline after it).
\<close>

theorem corpus_has_246_lines:
  "length mypy_issues = 157 \<and> length ruff_issues = 89
   \<and> sum_list (map (\<lambda>f. length (snd f)) corpus) = 246"
  by code_simp

section \<open>Comments that record the expected diagnostic\<close>

text \<open>
  Claim C5 asks that every example be paired with a comment that records the expected
  diagnostic. The section of the linter fixture titled "Bare except" (lines 66 to 71) is
  not: none of its lines has a comment, and its handler reads \<open>except Exception:\<close>, which
  is not a bare \<open>except\<close>. Every other section of both files, the first line of the
  two-line file header and the second header line of the type checker fixture apart, has
  at least one comment in its body: the list below gives, for the title at each line, the
  number of comments in the section.
\<close>

theorem bare_except_section_has_no_comment:
  \<open>ruff_issues ! 65 = ''# Bare except''
   \<and> section_body ruff_issues 66 =
      [''def bare_except_handler():'', ''    try:'', ''        pass'',
       ''    except Exception:'', ''        pass'', '''', '''']
   \<and> comments_in (section_body ruff_issues 66) = []
   \<and> map (\<lambda>n. (n, length (comments_in (section_body ruff_issues n)))) (titles ruff_issues) =
      [(1, 0), (2, 1), (6, 11), (37, 1), (45, 3), (55, 1), (62, 1), (66, 0),
       (74, 1), (80, 1), (85, 1)]
   \<and> map (\<lambda>n. (n, length (comments_in (section_body mypy_issues n)))) (titles mypy_issues) =
      [(1, 0), (2, 0), (7, 1), (12, 1), (21, 1), (27, 1), (33, 1), (38, 1),
       (44, 1), (50, 1), (55, 1), (60, 1), (71, 1), (82, 1), (94, 2), (115, 1),
       (123, 2), (137, 1), (151, 1)]\<close>
  by code_simp

section \<open>Input, output and side effects\<close>


subsection \<open>The tables of the two files\<close>
















end
